theory Spec2Isabelle
  imports Main "HOL-Library.Word"
begin

section \<open>The devnet orchestrator: Stack.Run and Stack.runMonomer\<close>

text \<open>
  The Go code under verification is the bring-up pipeline of package e2e:
  \<^verbatim>\<open>func (s *Stack) Run(ctx, env) error\<close> and its helper
  \<^verbatim>\<open>func (s *Stack) runMonomer(ctx, env, genesisTime, chainIDU64) error\<close>.
  Both are straight-line code: a sequence of calls to collaborators (process
  control, RPC clients, the network, the file system, the L2 node, the OP
  stack), each followed by an early return when the call failed.

  The embedding makes the two things a caller can observe explicit:
  \<^item> the value returned (\<open>go_error\<close>: \<open>None\<close> is Go's \<open>nil\<close>, \<open>Some msg\<close> an
    error with message \<open>msg\<close>), and
  \<^item> the calls made on collaborators, in program order (\<open>event list\<close>).

  What a collaborator answers is not decided by this code. Every answer is a
  field of the record \<open>world\<close>, one field per call site, and all theorems
  quantify over the whole record. The cancellable context \<open>ctx\<close> is not a
  value of the model: cancellation shows only in what the collaborators
  answer (a probe that answers \<open>False\<close>, a call that answers an error).

  The two functions contain no loop and no recursion, so they return as soon
  as every call they make has returned. The model describes exactly those
  runs: a field of \<open>world\<close> is the answer of a call that did return. In
  particular \<open>IsReachable\<close> answers \<open>False\<close> only once the context has been
  cancelled; a probe that polls forever is outside the model.
\<close>

subsection \<open>Data\<close>

type_synonym go_error = "string option"

type_synonym address = "160 word"
type_synonym hash = "256 word"
type_synonym privKey = nat
type_synonym listener = nat
type_synonym app = nat
type_synonym appState = nat
type_synonym rollupConfig = nat
type_synonym eventListener = nat

text \<open>
  \<^verbatim>\<open>*url.URL\<close> (package e2e/url): only its methods \<open>String()\<close>, \<open>Host()\<close>,
  \<open>Port()\<close> and \<open>IsReachable(ctx)\<close> are used. The first three are fields of the
  value; the answer of \<open>IsReachable\<close> belongs to the world.
\<close>

record url =
  url_String :: string
  url_Host :: string
  url_Port :: string

text \<open>\<^verbatim>\<open>type Stack struct\<close>. \<open>l1BlockTime\<close> is a \<open>time.Duration\<close>, an int64.\<close>

record Stack =
  anvilURL :: url
  monomerEngineURL :: url
  monomerCometURL :: url
  opNodeURL :: url
  contractsRootDir :: string
  eventListener :: eventListener
  l1BlockTime :: "64 word"

text \<open>\<^verbatim>\<open>exec.CommandContext(ctx, name, args...)\<close>.\<close>

record cmd =
  cmd_name :: string
  cmd_args :: "string list"

text \<open>A block of the L1 chain: \<open>Time()\<close> is a uint64; the rest stays opaque.\<close>

record block =
  block_Time :: "64 word"
  block_rest :: nat

text \<open>
  \<^verbatim>\<open>opgenesis.L1Deployments\<close>: the deployed address of each contract role. The
  pipeline reads the field \<open>L2OutputOracleProxy\<close>.
\<close>

record L1Deployments =
  L2OutputOracleProxy :: address
  otherRoles :: "(string \<times> address) list"

text \<open>
  \<^verbatim>\<open>opgenesis.DeployConfig\<close>: the fields the pipeline writes (\<open>L1ChainID\<close>,
  \<open>L2ChainID\<close>, both uint64), the deployment addresses that \<open>SetDeployments\<close>
  fills in, and the remaining content of the loaded template.
\<close>

record DeployConfig =
  L1ChainID :: "64 word"
  L2ChainID :: "64 word"
  deployments :: "L1Deployments option"
  templateRest :: nat

text \<open>\<^verbatim>\<open>genesis.Genesis\<close> as built in \<open>runMonomer\<close>.\<close>

record Genesis =
  AppState :: appState
  ChainID :: "64 word"
  Time :: "64 word"

text \<open>The in-memory stores created in \<open>runMonomer\<close>.\<close>

datatype memdb = AppDB | BlockDB | TxDB | MempoolDB

text \<open>
  The arguments of \<^verbatim>\<open>node.New\<close>, in the order of the call. The two
  transaction adapters are package-level functions, the same on every path,
  and are left out.
\<close>

record nodeArgs =
  node_app :: app
  node_genesis :: Genesis
  node_engineHTTP :: listener
  node_engineWS :: listener
  node_cometListener :: listener
  node_blockdb :: memdb
  node_mempooldb :: memdb
  node_txdb :: memdb
  node_eventListener :: eventListener

text \<open>The arguments of \<^verbatim>\<open>NewOPStack\<close>, in the order of the call.\<close>

record opStackArgs =
  op_l1URL :: url
  op_engineURL :: url
  op_nodeURL :: url
  op_l2OutputOracle :: address
  op_privKey :: privKey
  op_rollupConfig :: rollupConfig
  op_eventListener :: eventListener

subsection \<open>Calls on collaborators\<close>

text \<open>
  One constructor per kind of call the two functions make. \<open>IsReachable\<close>
  and \<open>NetListen\<close> also record what the call returned (the probe's verdict,
  the listener handle), because later stages are chosen by, or consume, that
  value. Writes to the fields of the loaded deploy config are recorded too
  (\<open>Assign_L1ChainID\<close>, \<open>Assign_L2ChainID\<close>), since the object is shared with
  the library that later reads it.
\<close>

datatype event =
    LogProcess string cmd
  | CmdStart cmd
  | EnvGo_WaitAnvil cmd
  | IsReachable url bool
  | DialContext string
  | GenerateKey
  | SetBalance address "64 word"
  | CmdWait cmd
  | BlockByNumber_latest
  | NetListen string string "string + listener"
  | TestappNew memdb string
  | DeferErr string memdb
  | NodeNew nodeArgs
  | NodeRun
  | GenesisHash
  | NewL1Deployments string
  | NewDeployConfigWithNetwork string string
  | Assign_L1ChainID "64 word"
  | Assign_L2ChainID "64 word"
  | Call_SetDeployments L1Deployments
  | Call_RollupConfig DeployConfig block hash "64 word"
  | NewOPStack opStackArgs
  | OPStackRun

text \<open>Callbacks delivered to the \<^verbatim>\<open>EventListener\<close>. The Go parameter is an
  \<open>error\<close> interface value, which can be nil.\<close>

datatype callback = OnAnvilErr go_error

subsection \<open>The world\<close>

text \<open>
  What each collaborator answers, one field per call site of the source, and
  the pure library functions whose bodies are outside the repository
  (formatting, path joining, key encoding, the rollup-config derivation).
\<close>

record world =
  LogProcess_anvil :: go_error
  Start_anvil :: go_error
  Wait_anvil :: go_error
  IsReachable_anvil :: bool
  Dial_anvil :: go_error
  GenerateKey_res :: "string + privKey"
  SetBalance_res :: go_error
  LogProcess_forge :: go_error
  Start_forge :: go_error
  Wait_forge :: go_error
  BlockByNumber_res :: "string + block"
  Listen_engineHTTP :: "string + listener"
  Listen_engineWS :: "string + listener"
  Listen_comet :: "string + listener"
  TestappNew_res :: "string + app"
  NodeRun_res :: go_error
  IsReachable_monomer :: bool
  Dial_monomer :: go_error
  GenesisHash_res :: "string + hash"
  NewL1Deployments_res :: "string + L1Deployments"
  NewDeployConfig_res :: "string + DeployConfig"
  OPStackRun_res :: go_error
  RollupConfig_fn :: "DeployConfig \<Rightarrow> block \<Rightarrow> hash \<Rightarrow> 64 word \<Rightarrow> string + rollupConfig"
  cmd_String :: "cmd \<Rightarrow> string"
  Sprint_Seconds :: "64 word \<Rightarrow> string"
  filepath_Join :: "string list \<Rightarrow> string"
  PubkeyToAddress :: "privKey \<Rightarrow> address"
  Bytes2Hex_FromECDSA :: "privKey \<Rightarrow> string"
  ChainID_String :: "64 word \<Rightarrow> string"
  DefaultGenesis :: "app \<Rightarrow> appState"

subsection \<open>Sequencing\<close>

text \<open>
  A run is the list of calls made and the value returned. \<open>emit e r\<close> is
  "make the call \<open>e\<close>, then continue as \<open>r\<close>"; \<open>ret x\<close> is \<open>return x\<close>.
\<close>

definition emit :: "event \<Rightarrow> event list \<times> 'a \<Rightarrow> event list \<times> 'a" where
  "emit e r = (e # fst r, snd r)"

definition ret :: "'a \<Rightarrow> event list \<times> 'a" where
  "ret x = ([], x)"

text \<open>\<open>andThen m k\<close>: run \<open>m\<close>, then \<open>k\<close> on what \<open>m\<close> returned.\<close>

definition andThen :: "event list \<times> 'a \<Rightarrow> ('a \<Rightarrow> event list \<times> 'b) \<Rightarrow> event list \<times> 'b" where
  "andThen m k = (fst m @ fst (k (snd m)), snd (k (snd m)))"

subsection \<open>Constants and the constructor\<close>

text \<open>\<^verbatim>\<open>const oneETH = uint64(1e18)\<close>\<close>

definition oneETH :: "64 word" where
  "oneETH = 1000000000000000000"

definition New :: "url \<Rightarrow> url \<Rightarrow> url \<Rightarrow> url \<Rightarrow> string \<Rightarrow> 64 word \<Rightarrow> eventListener \<Rightarrow> Stack" where
  "New anvilURL' monomerEngineURL' monomerCometURL' opNodeURL' contractsRootDir' l1BlockTime' eventListener' =
     \<lparr> anvilURL = anvilURL',
       monomerEngineURL = monomerEngineURL',
       monomerCometURL = monomerCometURL',
       opNodeURL = opNodeURL',
       contractsRootDir = contractsRootDir',
       eventListener = eventListener',
       l1BlockTime = l1BlockTime' \<rparr>"

text \<open>
  Modelled from the spec: \<^verbatim>\<open>DeployConfig.SetDeployments\<close> belongs to the
  upstream op-chain-ops library and is not part of the sources. The spec
  says it "injects \<open>l1Deployments\<close> into the deploy config", and lists the
  deployment addresses as a group of fields apart from the chain IDs.
\<close>

definition SetDeployments :: "DeployConfig \<Rightarrow> L1Deployments \<Rightarrow> DeployConfig" where
  "SetDeployments d l1d = d\<lparr>deployments := Some l1d\<rparr>"

subsection \<open>The background task of the L1 simulator\<close>

text \<open>
  \<^verbatim>\<open>
  env.Go(func() {
      if err := anvilCmd.Wait(); err != nil {
          s.eventListener.OnAnvilErr(fmt.Errorf("run %s: %v", anvilCmd, err))
      }
  })
  \<close>
  The closure is the task \<open>anvilMonitor\<close>: it reads the answer of \<open>Wait\<close> and
  yields the callbacks it delivers. \<open>Run\<close> records the launch as the event
  \<open>EnvGo_WaitAnvil\<close> and goes on without reading that answer.
\<close>

definition anvilMonitor :: "world \<Rightarrow> cmd \<Rightarrow> callback list" where
  "anvilMonitor w anvilCmd =
     (case Wait_anvil w of
        Some err \<Rightarrow> [OnAnvilErr (Some (''run '' @ cmd_String w anvilCmd @ '': '' @ err))]
      | None \<Rightarrow> [])"

subsection \<open>runMonomer\<close>

definition runMonomer :: "Stack \<Rightarrow> world \<Rightarrow> 64 word \<Rightarrow> 64 word \<Rightarrow> event list \<times> go_error" where
  "runMonomer s w genesisTime chainIDU64 =
     emit (NetListen ''tcp'' ''127.0.0.1:0'' (Listen_engineHTTP w))
     (case Listen_engineHTTP w of
        Inl err \<Rightarrow> ret (Some (''set up monomer engine http listener: '' @ err))
      | Inr engineHTTP \<Rightarrow>
     emit (NetListen ''tcp'' (url_Host (monomerEngineURL s)) (Listen_engineWS w))
     (case Listen_engineWS w of
        Inl err \<Rightarrow> ret (Some (''set up monomer engine ws listener: '' @ err))
      | Inr engineWS \<Rightarrow>
     emit (NetListen ''tcp'' (url_Host (monomerCometURL s)) (Listen_comet w))
     (case Listen_comet w of
        Inl err \<Rightarrow> ret (Some (''set up monomer comet listener: '' @ err))
      | Inr cometListener \<Rightarrow>
     (let chainID = chainIDU64 in
     emit (TestappNew AppDB (ChainID_String w chainID))
     (case TestappNew_res w of
        Inl err \<Rightarrow> ret (Some (''new test app: '' @ err))
      | Inr app \<Rightarrow>
     emit (DeferErr ''close block db'' BlockDB)
     (emit (DeferErr ''close tx db'' TxDB)
     (emit (DeferErr ''close mempool db'' MempoolDB)
     (emit (NodeNew
        \<lparr> node_app = app,
          node_genesis = \<lparr> AppState = DefaultGenesis w app, ChainID = chainID, Time = genesisTime \<rparr>,
          node_engineHTTP = engineHTTP,
          node_engineWS = engineWS,
          node_cometListener = cometListener,
          node_blockdb = BlockDB,
          node_mempooldb = MempoolDB,
          node_txdb = TxDB,
          node_eventListener = eventListener s \<rparr>)
     (emit NodeRun
     (case NodeRun_res w of
        Some err \<Rightarrow> ret (Some (''run monomer: '' @ err))
      | None \<Rightarrow> ret None))))))))))"

subsection \<open>The two external commands\<close>

text \<open>
  \<^verbatim>\<open>anvilCmd := exec.CommandContext(ctx, "anvil", "--port", s.anvilURL.Port(), ...)\<close>.
  \<open>fmt.Sprint(s.l1BlockTime.Seconds())\<close> formats a float64; the formatting
  is the library function \<open>Sprint_Seconds\<close> of the world.
\<close>

definition anvilCommand :: "Stack \<Rightarrow> world \<Rightarrow> cmd" where
  "anvilCommand s w =
     \<lparr> cmd_name = ''anvil'', cmd_args =
         [''--port'', url_Port (anvilURL s),
          ''--order'', ''fifo'',
          ''--disable-block-gas-limit'',
          ''--gas-price'', ''0'',
          ''--block-time'', Sprint_Seconds w (l1BlockTime s)] \<rparr>"

text \<open>
  \<^verbatim>\<open>forgeCmd := exec.CommandContext(ctx, "forge", "script", "--root", ...)\<close>.
  The last argument is \<open>common.Bytes2Hex(crypto.FromECDSA(privKey))\<close>.
\<close>

definition forgeCommand :: "Stack \<Rightarrow> world \<Rightarrow> privKey \<Rightarrow> cmd" where
  "forgeCommand s w privKey =
     \<lparr> cmd_name = ''forge'', cmd_args =
         [''script'',
          ''--root'', contractsRootDir s,
          ''-vvv'',
          filepath_Join w [contractsRootDir s, ''scripts'', ''Deploy.s.sol''] @ '':Deploy'',
          ''--rpc-url'', url_String (anvilURL s),
          ''--broadcast'',
          ''--private-key'', Bytes2Hex_FromECDSA w privKey] \<rparr>"

subsection \<open>Run\<close>

text \<open>
  The body of \<^verbatim>\<open>Stack.Run\<close>, statement by statement. \<open>fmt.Errorf("...: %v", err)\<close>
  is the concatenation of the prefix and the message of \<open>err\<close>; an
  \<^verbatim>\<open>*exec.Cmd\<close> under \<open>%s\<close> prints through its \<open>String()\<close> method. The error of
  \<open>runMonomer\<close> is returned as it is.
\<close>

definition Run :: "Stack \<Rightarrow> world \<Rightarrow> event list \<times> go_error" where
  "Run s w =
     (let anvilCmd = anvilCommand s w in
     emit (LogProcess ''anvil'' anvilCmd)
     (case LogProcess_anvil w of
        Some err \<Rightarrow> ret (Some (''log anvil process: '' @ err))
      | None \<Rightarrow>
     emit (CmdStart anvilCmd)
     (case Start_anvil w of
        Some err \<Rightarrow> ret (Some (''start '' @ cmd_String w anvilCmd @ '': '' @ err))
      | None \<Rightarrow>
     emit (EnvGo_WaitAnvil anvilCmd)
     (emit (IsReachable (anvilURL s) (IsReachable_anvil w))
     (if \<not> IsReachable_anvil w then ret None else
     emit (DialContext (url_String (anvilURL s)))
     (case Dial_anvil w of
        Some err \<Rightarrow> ret (Some (''dial anvil: '' @ err))
      | None \<Rightarrow>
     emit GenerateKey
     (case GenerateKey_res w of
        Inl err \<Rightarrow> ret (Some (''generate key: '' @ err))
      | Inr privKey \<Rightarrow>
     emit (SetBalance (PubkeyToAddress w privKey) (10 * oneETH))
     (case SetBalance_res w of
        Some err \<Rightarrow> ret (Some (''set balance: '' @ err))
      | None \<Rightarrow>
     (let forgeCmd = forgeCommand s w privKey in
     emit (LogProcess ''forge'' forgeCmd)
     (case LogProcess_forge w of
        Some err \<Rightarrow> ret (Some (''log forge process: '' @ err))
      | None \<Rightarrow>
     emit (CmdStart forgeCmd)
     (case Start_forge w of
        Some err \<Rightarrow> ret (Some (''start '' @ cmd_String w forgeCmd @ '': '' @ err))
      | None \<Rightarrow>
     emit (CmdWait forgeCmd)
     (case Wait_forge w of
        Some err \<Rightarrow> ret (Some (''run '' @ cmd_String w forgeCmd @ '': '' @ err))
      | None \<Rightarrow>
     emit BlockByNumber_latest
     (case BlockByNumber_res w of
        Inl err \<Rightarrow> ret (Some (''get the latest l1 block: '' @ err))
      | Inr latestL1Block \<Rightarrow>
     (let l2ChainID = 901 in
     andThen (runMonomer s w (block_Time latestL1Block) l2ChainID)
     (\<lambda>err. case err of
        Some e \<Rightarrow> ret (Some e)
      | None \<Rightarrow>
     emit (IsReachable (monomerEngineURL s) (IsReachable_monomer w))
     (if \<not> IsReachable_monomer w then ret None else
     emit (DialContext (url_String (monomerEngineURL s)))
     (case Dial_monomer w of
        Some err \<Rightarrow> ret (Some (''dial monomer: '' @ err))
      | None \<Rightarrow>
     emit GenesisHash
     (case GenesisHash_res w of
        Inl err \<Rightarrow> ret (Some (''get Monomer genesis block hash: '' @ err))
      | Inr l2GenesisBlockHash \<Rightarrow>
     (let networkName = ''hardhat'' in
     emit (NewL1Deployments
             (filepath_Join w [contractsRootDir s, ''deployments'', networkName, ''.deploy'']))
     (case NewL1Deployments_res w of
        Inl err \<Rightarrow> ret (Some (''new l1 deployments: '' @ err))
      | Inr l1Deployments \<Rightarrow>
     emit (NewDeployConfigWithNetwork networkName
             (filepath_Join w [contractsRootDir s, ''deploy-config'']))
     (case NewDeployConfig_res w of
        Inl err \<Rightarrow> ret (Some (''new deploy config: '' @ err))
      | Inr deployConfig \<Rightarrow>
     emit (Assign_L1ChainID 31337)
     (let deployConfig = deployConfig\<lparr>L1ChainID := 31337\<rparr> in
     emit (Assign_L2ChainID l2ChainID)
     (let deployConfig = deployConfig\<lparr>L2ChainID := l2ChainID\<rparr> in
     emit (Call_SetDeployments l1Deployments)
     (let deployConfig = SetDeployments deployConfig l1Deployments in
     emit (Call_RollupConfig deployConfig latestL1Block l2GenesisBlockHash 1)
     (case RollupConfig_fn w deployConfig latestL1Block l2GenesisBlockHash 1 of
        Inl err \<Rightarrow> ret (Some (''new rollup config: '' @ err))
      | Inr rollupConfig \<Rightarrow>
     emit (NewOPStack
        \<lparr> op_l1URL = anvilURL s,
          op_engineURL = monomerEngineURL s,
          op_nodeURL = opNodeURL s,
          op_l2OutputOracle = L2OutputOracleProxy l1Deployments,
          op_privKey = privKey,
          op_rollupConfig = rollupConfig,
          op_eventListener = eventListener s \<rparr>)
     (emit OPStackRun
     (case OPStackRun_res w of
        Some err \<Rightarrow> ret (Some (''run the op stack: '' @ err))
      | None \<Rightarrow> ret None)))))))))))))))))))))))))))"

subsection \<open>A concrete stack and a world in which every call succeeds\<close>

definition exampleStack :: Stack where
  "exampleStack =
     New \<lparr> url_String = ''http://127.0.0.1:8545'', url_Host = ''127.0.0.1:8545'', url_Port = ''8545'' \<rparr>
         \<lparr> url_String = ''ws://127.0.0.1:8889'', url_Host = ''127.0.0.1:8889'', url_Port = ''8889'' \<rparr>
         \<lparr> url_String = ''http://127.0.0.1:8890'', url_Host = ''127.0.0.1:8890'', url_Port = ''8890'' \<rparr>
         \<lparr> url_String = ''http://127.0.0.1:8891'', url_Host = ''127.0.0.1:8891'', url_Port = ''8891'' \<rparr>
         ''/contracts'' 2000000000 0"

definition exampleBlock :: block where
  "exampleBlock = \<lparr> block_Time = 1700000000, block_rest = 0 \<rparr>"

definition exampleDeployments :: L1Deployments where
  "exampleDeployments = \<lparr> L2OutputOracleProxy = 0xABCD, otherRoles = [] \<rparr>"

text \<open>The loaded template carries the L1 chain ID 900, as the comment in the
  source says the upstream file does.\<close>

definition exampleTemplate :: DeployConfig where
  "exampleTemplate = \<lparr> L1ChainID = 900, L2ChainID = 5, deployments = None, templateRest = 0 \<rparr>"

fun joinWith :: "string \<Rightarrow> string list \<Rightarrow> string" where
  "joinWith sep [] = []"
| "joinWith sep [x] = x"
| "joinWith sep (x # y # ys) = x @ sep @ joinWith sep (y # ys)"

definition goodWorld :: world where
  "goodWorld =
     \<lparr> LogProcess_anvil = None,
       Start_anvil = None,
       Wait_anvil = None,
       IsReachable_anvil = True,
       Dial_anvil = None,
       GenerateKey_res = Inr 42,
       SetBalance_res = None,
       LogProcess_forge = None,
       Start_forge = None,
       Wait_forge = None,
       BlockByNumber_res = Inr exampleBlock,
       Listen_engineHTTP = Inr 1,
       Listen_engineWS = Inr 2,
       Listen_comet = Inr 3,
       TestappNew_res = Inr 0,
       NodeRun_res = None,
       IsReachable_monomer = True,
       Dial_monomer = None,
       GenesisHash_res = Inr 0x1234,
       NewL1Deployments_res = Inr exampleDeployments,
       NewDeployConfig_res = Inr exampleTemplate,
       OPStackRun_res = None,
       RollupConfig_fn = (\<lambda>d b h n. Inr 7),
       cmd_String = (\<lambda>c. joinWith '' '' (cmd_name c # cmd_args c)),
       Sprint_Seconds = (\<lambda>d. ''2''),
       filepath_Join = joinWith ''/'',
       PubkeyToAddress = of_nat,
       Bytes2Hex_FromECDSA = (\<lambda>k. ''2a''),
       ChainID_String = (\<lambda>c. ''901''),
       DefaultGenesis = (\<lambda>a. 0) \<rparr>"

definition exampleDerived :: DeployConfig where
  "exampleDerived =
     \<lparr> L1ChainID = 31337, L2ChainID = 901, deployments = Some exampleDeployments, templateRest = 0 \<rparr>"

definition exampleNodeArgs :: nodeArgs where
  "exampleNodeArgs =
     \<lparr> node_app = 0,
       node_genesis = \<lparr> AppState = 0, ChainID = 901, Time = 1700000000 \<rparr>,
       node_engineHTTP = 1,
       node_engineWS = 2,
       node_cometListener = 3,
       node_blockdb = BlockDB,
       node_mempooldb = MempoolDB,
       node_txdb = TxDB,
       node_eventListener = 0 \<rparr>"

definition exampleOPStackArgs :: opStackArgs where
  "exampleOPStackArgs =
     \<lparr> op_l1URL = anvilURL exampleStack,
       op_engineURL = monomerEngineURL exampleStack,
       op_nodeURL = opNodeURL exampleStack,
       op_l2OutputOracle = 0xABCD,
       op_privKey = 42,
       op_rollupConfig = 7,
       op_eventListener = 0 \<rparr>"

text \<open>The calls of a run in which nothing fails, in order.\<close>

definition goodTrace :: "event list" where
  "goodTrace =
     [LogProcess ''anvil'' (anvilCommand exampleStack goodWorld),
      CmdStart (anvilCommand exampleStack goodWorld),
      EnvGo_WaitAnvil (anvilCommand exampleStack goodWorld),
      IsReachable (anvilURL exampleStack) True,
      DialContext ''http://127.0.0.1:8545'',
      GenerateKey,
      SetBalance 42 (10 * oneETH),
      LogProcess ''forge'' (forgeCommand exampleStack goodWorld 42),
      CmdStart (forgeCommand exampleStack goodWorld 42),
      CmdWait (forgeCommand exampleStack goodWorld 42),
      BlockByNumber_latest,
      NetListen ''tcp'' ''127.0.0.1:0'' (Inr 1),
      NetListen ''tcp'' ''127.0.0.1:8889'' (Inr 2),
      NetListen ''tcp'' ''127.0.0.1:8890'' (Inr 3),
      TestappNew AppDB ''901'',
      DeferErr ''close block db'' BlockDB,
      DeferErr ''close tx db'' TxDB,
      DeferErr ''close mempool db'' MempoolDB,
      NodeNew exampleNodeArgs,
      NodeRun,
      IsReachable (monomerEngineURL exampleStack) True,
      DialContext ''ws://127.0.0.1:8889'',
      GenesisHash,
      NewL1Deployments ''/contracts/deployments/hardhat/.deploy'',
      NewDeployConfigWithNetwork ''hardhat'' ''/contracts/deploy-config'',
      Assign_L1ChainID 31337,
      Assign_L2ChainID 901,
      Call_SetDeployments exampleDeployments,
      Call_RollupConfig exampleDerived exampleBlock 0x1234 1,
      NewOPStack exampleOPStackArgs,
      OPStackRun]"

text \<open>Worlds in which exactly one thing goes wrong.\<close>

definition anvilDownWorld :: world where
  "anvilDownWorld = goodWorld\<lparr>IsReachable_anvil := False\<rparr>"

definition monomerDownWorld :: world where
  "monomerDownWorld = goodWorld\<lparr>IsReachable_monomer := False\<rparr>"

definition forgeMissingWorld :: world where
  "forgeMissingWorld = goodWorld\<lparr>Start_forge := Some ''executable file not found''\<rparr>"

definition forgeFailsWorld :: world where
  "forgeFailsWorld = goodWorld\<lparr>Wait_forge := Some ''exit status 1''\<rparr>"

definition anvilDiesWorld :: world where
  "anvilDiesWorld = goodWorld\<lparr>Wait_anvil := Some ''signal: killed''\<rparr>"

subsection \<open>How far the world lets the pipeline get\<close>

text \<open>
  Each predicate collects the answers that let \<open>Run\<close> pass one more section of
  its body: the simulator was spawned; the account was funded with key \<open>k\<close>;
  the deployment script exited cleanly; the L2 node was built from block
  \<open>blk\<close>, the three listeners and the application; both configuration files
  were loaded after the node reported its genesis hash \<open>h\<close>.
\<close>

definition anvilStarted :: "world \<Rightarrow> bool" where
  "anvilStarted w \<longleftrightarrow> LogProcess_anvil w = None \<and> Start_anvil w = None"

definition accountFunded :: "world \<Rightarrow> privKey \<Rightarrow> bool" where
  "accountFunded w k \<longleftrightarrow>
     anvilStarted w \<and> IsReachable_anvil w \<and> Dial_anvil w = None \<and>
     GenerateKey_res w = Inr k \<and> SetBalance_res w = None"

definition contractsDeployed :: "world \<Rightarrow> privKey \<Rightarrow> bool" where
  "contractsDeployed w k \<longleftrightarrow>
     accountFunded w k \<and> LogProcess_forge w = None \<and> Start_forge w = None \<and> Wait_forge w = None"

definition nodeBuilt ::
  "world \<Rightarrow> privKey \<Rightarrow> block \<Rightarrow> listener \<Rightarrow> listener \<Rightarrow> listener \<Rightarrow> app \<Rightarrow> bool" where
  "nodeBuilt w k blk eh ews cl a \<longleftrightarrow>
     contractsDeployed w k \<and> BlockByNumber_res w = Inr blk \<and>
     Listen_engineHTTP w = Inr eh \<and> Listen_engineWS w = Inr ews \<and> Listen_comet w = Inr cl \<and>
     TestappNew_res w = Inr a"

definition configsLoaded ::
  "world \<Rightarrow> privKey \<Rightarrow> block \<Rightarrow> hash \<Rightarrow> L1Deployments \<Rightarrow> DeployConfig \<Rightarrow> bool" where
  "configsLoaded w k blk h l1d tmpl \<longleftrightarrow>
     (\<exists>eh ews cl a. nodeBuilt w k blk eh ews cl a) \<and> NodeRun_res w = None \<and>
     IsReachable_monomer w \<and> Dial_monomer w = None \<and> GenesisHash_res w = Inr h \<and>
     NewL1Deployments_res w = Inr l1d \<and> NewDeployConfig_res w = Inr tmpl"

subsection \<open>Classes of calls\<close>

text \<open>Writes to, and calls on, the loaded deploy config.\<close>

definition touchesDeployConfig :: "event \<Rightarrow> bool" where
  "touchesDeployConfig e =
     (case e of
        Assign_L1ChainID _ \<Rightarrow> True
      | Assign_L2ChainID _ \<Rightarrow> True
      | Call_SetDeployments _ \<Rightarrow> True
      | Call_RollupConfig _ _ _ _ \<Rightarrow> True
      | _ \<Rightarrow> False)"

definition isNetListen :: "event \<Rightarrow> bool" where
  "isNetListen e = (case e of NetListen _ _ _ \<Rightarrow> True | _ \<Rightarrow> False)"

text \<open>Blocking on a process, and reading the latest L1 block.\<close>

definition isWaitOrBlockFetch :: "event \<Rightarrow> bool" where
  "isWaitOrBlockFetch e =
     (case e of CmdWait _ \<Rightarrow> True | BlockByNumber_latest \<Rightarrow> True | _ \<Rightarrow> False)"

text \<open>The same two, and the construction of the L2 node.\<close>

definition isGenesisTimeStep :: "event \<Rightarrow> bool" where
  "isGenesisTimeStep e =
     (case e of CmdWait _ \<Rightarrow> True | BlockByNumber_latest \<Rightarrow> True | NodeNew _ \<Rightarrow> True | _ \<Rightarrow> False)"

section \<open>Basic facts\<close>

subsection \<open>Reading a run\<close>

lemma fst_emit: "fst (emit e r) = e # fst r"
  by (simp add: emit_def)

lemma snd_emit: "snd (emit e r) = snd r"
  by (simp add: emit_def)

lemma fst_ret: "fst (ret x) = []"
  by (simp add: ret_def)

lemma snd_ret: "snd (ret x) = x"
  by (simp add: ret_def)

lemma fst_andThen: "fst (andThen m k) = fst m @ fst (k (snd m))"
  by (simp add: andThen_def)

lemma snd_andThen: "snd (andThen m k) = snd (k (snd m))"
  by (simp add: andThen_def)

lemmas run_sel = fst_emit snd_emit fst_ret snd_ret fst_andThen snd_andThen Let_def
lemmas stage_defs = anvilStarted_def accountFunded_def contractsDeployed_def nodeBuilt_def
  configsLoaded_def
lemmas run_splits = option.splits sum.splits if_splits
lemmas run_eval = Run_def runMonomer_def run_sel stage_defs

subsection \<open>A call in the trace tells how far the run got\<close>

text \<open>
  \<open>Run\<close> returns early at the first failure, so a call is made only when
  every earlier call succeeded. Each lemma inverts one kind of call: from its
  presence in the trace to the answers the world must have given, and to the
  arguments of the call.
\<close>

lemma reach_probe_False:
  "IsReachable u False \<in> set (fst (Run s w)) \<Longrightarrow>
     (anvilStarted w \<and> \<not> IsReachable_anvil w \<and> u = anvilURL s) \<or>
     ((\<exists>k blk eh ews cl a. nodeBuilt w k blk eh ews cl a) \<and> NodeRun_res w = None \<and>
        \<not> IsReachable_monomer w \<and> u = monomerEngineURL s)"
  by (auto simp: Run_def runMonomer_def run_sel stage_defs split: run_splits)

lemma reach_anvil_start:
  "cmd_name c = ''anvil'' \<Longrightarrow> CmdStart c \<in> set (fst (Run s w)) \<Longrightarrow>
     LogProcess_anvil w = None \<and> c = anvilCommand s w"
  by (auto simp: Run_def runMonomer_def run_sel stage_defs forgeCommand_def split: run_splits)

lemma reach_SetBalance:
  "SetBalance a v \<in> set (fst (Run s w)) \<Longrightarrow>
     \<exists>k. anvilStarted w \<and> IsReachable_anvil w \<and> Dial_anvil w = None \<and> GenerateKey_res w = Inr k
        \<and> a = PubkeyToAddress w k \<and> v = 10 * oneETH"
  by (auto simp: Run_def runMonomer_def run_sel stage_defs split: run_splits)

lemma reach_forge_start:
  "cmd_name c = ''forge'' \<Longrightarrow> CmdStart c \<in> set (fst (Run s w)) \<Longrightarrow>
     \<exists>k. accountFunded w k \<and> LogProcess_forge w = None \<and> c = forgeCommand s w k"
  by (auto simp: Run_def runMonomer_def run_sel stage_defs anvilCommand_def split: run_splits)

lemma reach_forge_wait:
  "CmdWait c \<in> set (fst (Run s w)) \<Longrightarrow>
     \<exists>k. accountFunded w k \<and> LogProcess_forge w = None \<and> Start_forge w = None \<and>
         c = forgeCommand s w k"
  by (auto simp: Run_def runMonomer_def run_sel stage_defs split: run_splits)

lemma reach_BlockByNumber:
  "BlockByNumber_latest \<in> set (fst (Run s w)) \<Longrightarrow> \<exists>k. contractsDeployed w k"
  by (auto simp: Run_def runMonomer_def run_sel stage_defs split: run_splits)

lemma reach_NodeNew:
  "NodeNew args \<in> set (fst (Run s w)) \<Longrightarrow>
     \<exists>k blk eh ews cl a. nodeBuilt w k blk eh ews cl a \<and>
       args = \<lparr> node_app = a,
                node_genesis = \<lparr> AppState = DefaultGenesis w a, ChainID = 901, Time = block_Time blk \<rparr>,
                node_engineHTTP = eh,
                node_engineWS = ews,
                node_cometListener = cl,
                node_blockdb = BlockDB,
                node_mempooldb = MempoolDB,
                node_txdb = TxDB,
                node_eventListener = eventListener s \<rparr>"
  by (auto simp: Run_def runMonomer_def run_sel stage_defs split: run_splits)

lemma reach_NodeRun:
  "NodeRun \<in> set (fst (Run s w)) \<Longrightarrow> \<exists>k blk eh ews cl a. nodeBuilt w k blk eh ews cl a"
  by (auto simp: Run_def runMonomer_def run_sel stage_defs split: run_splits)

lemma reach_NewDeployConfig:
  "NewDeployConfigWithNetwork n p \<in> set (fst (Run s w)) \<Longrightarrow>
     \<exists>k blk h l1d eh ews cl a. nodeBuilt w k blk eh ews cl a \<and> NodeRun_res w = None \<and>
       IsReachable_monomer w \<and> Dial_monomer w = None \<and> GenesisHash_res w = Inr h \<and>
       NewL1Deployments_res w = Inr l1d"
  by (auto simp: Run_def runMonomer_def run_sel stage_defs split: run_splits)

lemma reach_RollupConfig:
  "Call_RollupConfig dc blk h n \<in> set (fst (Run s w)) \<Longrightarrow>
     \<exists>k l1d tmpl. configsLoaded w k blk h l1d tmpl \<and> n = 1 \<and>
        dc = SetDeployments ((tmpl\<lparr>L1ChainID := 31337\<rparr>)\<lparr>L2ChainID := 901\<rparr>) l1d"
  by (auto simp: Run_def runMonomer_def run_sel stage_defs split: run_splits)

lemma reach_NewOPStack:
  "NewOPStack a \<in> set (fst (Run s w)) \<Longrightarrow>
     \<exists>blk h l1d tmpl. configsLoaded w (op_privKey a) blk h l1d tmpl \<and>
        RollupConfig_fn w (SetDeployments ((tmpl\<lparr>L1ChainID := 31337\<rparr>)\<lparr>L2ChainID := 901\<rparr>) l1d) blk h 1
          = Inr (op_rollupConfig a) \<and>
        op_l2OutputOracle a = L2OutputOracleProxy l1d"
  by (auto simp: Run_def runMonomer_def run_sel stage_defs split: run_splits)

lemma NetListen_addresses:
  "NetListen net addr r \<in> set (fst (Run s w)) \<Longrightarrow>
     net = ''tcp'' \<and>
     (addr = ''127.0.0.1:0'' \<and> r = Listen_engineHTTP w \<or>
      addr = url_Host (monomerEngineURL s) \<and> r = Listen_engineWS w \<or>
      addr = url_Host (monomerCometURL s) \<and> r = Listen_comet w)"
  by (auto simp: Run_def runMonomer_def run_sel split: run_splits)

lemma probe_targets:
  "IsReachable u b \<in> set (fst (Run s w)) \<Longrightarrow>
     u = anvilURL s \<and> b = IsReachable_anvil w \<or>
     u = monomerEngineURL s \<and> b = IsReachable_monomer w"
  by (auto simp: Run_def runMonomer_def run_sel split: run_splits)

lemma GenerateKey_once: "count_list (fst (Run s w)) GenerateKey \<le> 1"
  by (auto simp: Run_def runMonomer_def run_sel split: run_splits)

lemma Run_ignores_Wait_anvil: "Run s (w\<lparr>Wait_anvil := x\<rparr>) = Run s w"
  by (simp add: Run_def runMonomer_def anvilCommand_def forgeCommand_def
        cong: option.case_cong sum.case_cong if_cong)

subsection \<open>The example runs\<close>

lemma goodWorld_fields:
  "LogProcess_anvil goodWorld = None" "Start_anvil goodWorld = None" "Wait_anvil goodWorld = None"
  "IsReachable_anvil goodWorld = True" "Dial_anvil goodWorld = None"
  "GenerateKey_res goodWorld = Inr 42" "SetBalance_res goodWorld = None"
  "LogProcess_forge goodWorld = None" "Start_forge goodWorld = None" "Wait_forge goodWorld = None"
  "BlockByNumber_res goodWorld = Inr exampleBlock"
  "Listen_engineHTTP goodWorld = Inr 1" "Listen_engineWS goodWorld = Inr 2"
  "Listen_comet goodWorld = Inr 3" "TestappNew_res goodWorld = Inr 0"
  "NodeRun_res goodWorld = None" "IsReachable_monomer goodWorld = True"
  "Dial_monomer goodWorld = None" "GenesisHash_res goodWorld = Inr 0x1234"
  "NewL1Deployments_res goodWorld = Inr exampleDeployments"
  "NewDeployConfig_res goodWorld = Inr exampleTemplate"
  "OPStackRun_res goodWorld = None"
  "RollupConfig_fn goodWorld d b h n = Inr 7"
  "cmd_String goodWorld c = joinWith '' '' (cmd_name c # cmd_args c)"
  "filepath_Join goodWorld = joinWith ''/''"
  "PubkeyToAddress goodWorld k = of_nat k"
  "ChainID_String goodWorld i = ''901''"
  "DefaultGenesis goodWorld a = 0"
  by (simp_all add: goodWorld_def)

lemma exampleStack_fields:
  "url_String (anvilURL exampleStack) = ''http://127.0.0.1:8545''"
  "url_String (monomerEngineURL exampleStack) = ''ws://127.0.0.1:8889''"
  "url_Host (monomerEngineURL exampleStack) = ''127.0.0.1:8889''"
  "url_Host (monomerCometURL exampleStack) = ''127.0.0.1:8890''"
  "contractsRootDir exampleStack = ''/contracts''"
  "eventListener exampleStack = 0"
  by (simp_all add: exampleStack_def New_def)

lemmas example_simps = goodWorld_fields exampleStack_fields exampleDerived_def exampleNodeArgs_def
  exampleOPStackArgs_def exampleTemplate_def exampleBlock_def exampleDeployments_def
  SetDeployments_def

lemmas run_exec = Run_def runMonomer_def emit_def ret_def andThen_def Let_def example_simps
  anvilCommand_def forgeCommand_def

lemma Run_goodWorld: "Run exampleStack goodWorld = (goodTrace, None)"
  by (simp add: Run_def runMonomer_def emit_def ret_def andThen_def Let_def goodTrace_def
        example_simps)

lemma Run_anvilDown:
  "Run exampleStack anvilDownWorld =
     (take 3 goodTrace @ [IsReachable (anvilURL exampleStack) False], None)"
  by (simp add: run_exec anvilDownWorld_def goodTrace_def)

lemma Run_monomerDown:
  "Run exampleStack monomerDownWorld =
     (take 20 goodTrace @ [IsReachable (monomerEngineURL exampleStack) False], None)"
  by (simp add: run_exec monomerDownWorld_def goodTrace_def)

lemma Run_forgeMissing:
  "Run exampleStack forgeMissingWorld =
     (take 9 goodTrace,
      Some (''start '' @ cmd_String goodWorld (forgeCommand exampleStack goodWorld 42) @
            '': executable file not found''))"
  by (simp add: run_exec forgeMissingWorld_def goodTrace_def)

lemma Run_forgeFails:
  "Run exampleStack forgeFailsWorld =
     (take 10 goodTrace,
      Some (''run '' @ cmd_String goodWorld (forgeCommand exampleStack goodWorld 42) @
            '': exit status 1''))"
  by (simp add: run_exec forgeFailsWorld_def goodTrace_def)

lemma Run_anvilDies: "Run exampleStack anvilDiesWorld = (goodTrace, None)"
  by (simp add: anvilDiesWorld_def Run_ignores_Wait_anvil Run_goodWorld)

lemma in_goodTrace:
  "CmdStart (anvilCommand exampleStack goodWorld) \<in> set goodTrace"
  "SetBalance 42 (10 * oneETH) \<in> set goodTrace"
  "CmdStart (forgeCommand exampleStack goodWorld 42) \<in> set goodTrace"
  "CmdWait (forgeCommand exampleStack goodWorld 42) \<in> set goodTrace"
  "BlockByNumber_latest \<in> set goodTrace"
  "NodeNew exampleNodeArgs \<in> set goodTrace"
  "NodeRun \<in> set goodTrace"
  "IsReachable (monomerEngineURL exampleStack) True \<in> set goodTrace"
  "NewDeployConfigWithNetwork ''hardhat'' ''/contracts/deploy-config'' \<in> set goodTrace"
  "Call_RollupConfig exampleDerived exampleBlock 0x1234 1 \<in> set goodTrace"
  "NewOPStack exampleOPStackArgs \<in> set goodTrace"
  by (simp_all add: goodTrace_def)

section \<open>The claims\<close>

subsection \<open>C1: an unreachable service ends the run with nil\<close>

lemma unreachable_anvil_run:
  "LogProcess_anvil w = None \<Longrightarrow> Start_anvil w = None \<Longrightarrow> \<not> IsReachable_anvil w \<Longrightarrow>
     Run s w = ([LogProcess ''anvil'' (anvilCommand s w), CmdStart (anvilCommand s w),
                 EnvGo_WaitAnvil (anvilCommand s w), IsReachable (anvilURL s) False], None)"
  by (simp add: Run_def emit_def ret_def Let_def)

lemma unreachable_monomer_run:
  assumes "NodeRun \<in> set (fst (Run s w))" "NodeRun_res w = None" "\<not> IsReachable_monomer w"
  shows "snd (Run s w) = None
        \<and> last (fst (Run s w)) = IsReachable (monomerEngineURL s) False
        \<and> GenesisHash \<notin> set (fst (Run s w))
        \<and> (\<forall>p. NewL1Deployments p \<notin> set (fst (Run s w)))
        \<and> (\<forall>n p. NewDeployConfigWithNetwork n p \<notin> set (fst (Run s w)))
        \<and> (\<forall>d b h n. Call_RollupConfig d b h n \<notin> set (fst (Run s w)))
        \<and> (\<forall>a. NewOPStack a \<notin> set (fst (Run s w)))
        \<and> OPStackRun \<notin> set (fst (Run s w))"
proof -
  from reach_NodeRun[OF assms(1)] obtain k blk eh ews cl a where "nodeBuilt w k blk eh ews cl a"
    by blast
  with assms(2,3) show ?thesis
    by (simp add: run_eval)
qed

lemma failed_probe_ends_run:
  assumes "IsReachable u False \<in> set (fst (Run s w))"
  shows "snd (Run s w) = None \<and> last (fst (Run s w)) = IsReachable u False
        \<and> (u = anvilURL s \<or> u = monomerEngineURL s)"
  using reach_probe_False[OF assms]
  by (auto simp: run_eval)

text \<open>
  Claim C1. If a started service never becomes reachable before the caller's
  context is cancelled, \<open>Run\<close> returns nil and performs none of the later
  stages.
  \<^item> L1 simulator: when the simulator was spawned and its probe answers
    \<open>False\<close>, the whole run is the four calls up to the probe (no dial, no key,
    no funding, no deployment, nothing later) and the result is nil.
  \<^item> L2 node: when the node was started (\<open>NodeRun\<close> was called and returned nil)
    and its probe answers \<open>False\<close>, the result is nil, the probe is the last
    call of the run, and the run contains no genesis-hash query, no
    configuration loading or derivation and no launch of the OP stack.
  \<^item> In general a failed probe, wherever it occurs, is the last call of the run
    and the run returns nil; only the two service URLs are ever probed.
\<close>

theorem Run_unreachable_service_returns_nil:
  "(LogProcess_anvil w = None \<and> Start_anvil w = None \<and> \<not> IsReachable_anvil w \<longrightarrow>
      Run s w = ([LogProcess ''anvil'' (anvilCommand s w), CmdStart (anvilCommand s w),
                  EnvGo_WaitAnvil (anvilCommand s w), IsReachable (anvilURL s) False], None))
   \<and> (NodeRun \<in> set (fst (Run s w)) \<and> NodeRun_res w = None \<and> \<not> IsReachable_monomer w \<longrightarrow>
        snd (Run s w) = None
        \<and> last (fst (Run s w)) = IsReachable (monomerEngineURL s) False
        \<and> GenesisHash \<notin> set (fst (Run s w))
        \<and> (\<forall>p. NewL1Deployments p \<notin> set (fst (Run s w)))
        \<and> (\<forall>n p. NewDeployConfigWithNetwork n p \<notin> set (fst (Run s w)))
        \<and> (\<forall>d b h n. Call_RollupConfig d b h n \<notin> set (fst (Run s w)))
        \<and> (\<forall>a. NewOPStack a \<notin> set (fst (Run s w)))
        \<and> OPStackRun \<notin> set (fst (Run s w)))
   \<and> (\<forall>u. IsReachable u False \<in> set (fst (Run s w)) \<longrightarrow>
        snd (Run s w) = None \<and> last (fst (Run s w)) = IsReachable u False
        \<and> (u = anvilURL s \<or> u = monomerEngineURL s))"
  using unreachable_anvil_run[of w s] unreachable_monomer_run[of s w] failed_probe_ends_run[of _ s w]
  by blast

theorem Run_unreachable_service_returns_nil_witness:
  "LogProcess_anvil anvilDownWorld = None \<and> Start_anvil anvilDownWorld = None \<and>
   \<not> IsReachable_anvil anvilDownWorld \<and>
   Run exampleStack anvilDownWorld =
     ([LogProcess ''anvil'' (anvilCommand exampleStack anvilDownWorld),
       CmdStart (anvilCommand exampleStack anvilDownWorld),
       EnvGo_WaitAnvil (anvilCommand exampleStack anvilDownWorld),
       IsReachable (anvilURL exampleStack) False], None) \<and>
   NodeRun \<in> set (fst (Run exampleStack monomerDownWorld)) \<and>
   NodeRun_res monomerDownWorld = None \<and> \<not> IsReachable_monomer monomerDownWorld \<and>
   snd (Run exampleStack monomerDownWorld) = None \<and>
   last (fst (Run exampleStack monomerDownWorld)) = IsReachable (monomerEngineURL exampleStack) False \<and>
   OPStackRun \<notin> set (fst (Run exampleStack monomerDownWorld)) \<and>
   IsReachable (anvilURL exampleStack) False \<in> set (fst (Run exampleStack anvilDownWorld))"
proof -
  have a: "LogProcess_anvil anvilDownWorld = None \<and> Start_anvil anvilDownWorld = None \<and>
           \<not> IsReachable_anvil anvilDownWorld"
    by (simp add: anvilDownWorld_def goodWorld_fields)
  have m: "NodeRun \<in> set (fst (Run exampleStack monomerDownWorld)) \<and>
           NodeRun_res monomerDownWorld = None \<and> \<not> IsReachable_monomer monomerDownWorld"
    using Run_monomerDown by (simp add: goodTrace_def monomerDownWorld_def goodWorld_fields)
  have p: "IsReachable (anvilURL exampleStack) False \<in> set (fst (Run exampleStack anvilDownWorld))"
    by (simp add: Run_anvilDown)
  show ?thesis
    using a m p
      Run_unreachable_service_returns_nil[of anvilDownWorld exampleStack]
      Run_unreachable_service_returns_nil[of monomerDownWorld exampleStack]
    by blast
qed

subsection \<open>C2: the genesis hash and the constant handed to the derivation\<close>

lemma rollup_call_args:
  assumes "Call_RollupConfig dc blk h n \<in> set (fst (Run s w))"
  shows "GenesisHash_res w = Inr h \<and> n = 1 \<and> GenesisHash \<in> set (fst (Run s w))"
proof -
  from reach_RollupConfig[OF assms] obtain k l1d tmpl
    where "configsLoaded w k blk h l1d tmpl" "n = 1" by blast
  then show ?thesis by (auto simp: run_eval)
qed

lemma rollup_result_handed_on:
  assumes "NewOPStack a \<in> set (fst (Run s w))"
  shows "\<exists>dc blk h. GenesisHash_res w = Inr h
          \<and> Call_RollupConfig dc blk h 1 \<in> set (fst (Run s w))
          \<and> RollupConfig_fn w dc blk h 1 = Inr (op_rollupConfig a)"
proof -
  from reach_NewOPStack[OF assms] obtain blk h l1d tmpl
    where cl: "configsLoaded w (op_privKey a) blk h l1d tmpl"
      and rc: "RollupConfig_fn w
                 (SetDeployments ((tmpl\<lparr>L1ChainID := 31337\<rparr>)\<lparr>L2ChainID := 901\<rparr>) l1d) blk h 1
                 = Inr (op_rollupConfig a)" by blast
  from cl have "GenesisHash_res w = Inr h" by (simp add: configsLoaded_def)
  moreover from cl rc have
    "Call_RollupConfig (SetDeployments ((tmpl\<lparr>L1ChainID := 31337\<rparr>)\<lparr>L2ChainID := 901\<rparr>) l1d) blk h 1
       \<in> set (fst (Run s w))"
    by (auto simp: run_eval)
  ultimately show ?thesis using rc by blast
qed

text \<open>
  Claim C2. In every run that reaches the derivation of the rollup config,
  the hash passed to \<^verbatim>\<open>deployConfig.RollupConfig\<close> is the hash the L2 node
  answered to the genesis-hash query made earlier in the same run, and the
  third argument is the constant 1. The config handed to the OP stack is what
  the derivation returned for exactly these arguments. The derivation itself
  is a function of the upstream library (\<open>RollupConfig_fn\<close>); what it records
  of its arguments, and what its third argument means, is decided there.
\<close>

theorem Run_rollup_config_uses_node_genesis_hash:
  "(Call_RollupConfig dc blk h n \<in> set (fst (Run s w)) \<longrightarrow>
      GenesisHash_res w = Inr h \<and> n = 1 \<and> GenesisHash \<in> set (fst (Run s w)))
   \<and> (NewOPStack a \<in> set (fst (Run s w)) \<longrightarrow>
        (\<exists>dc' blk' h'. GenesisHash_res w = Inr h'
           \<and> Call_RollupConfig dc' blk' h' 1 \<in> set (fst (Run s w))
           \<and> RollupConfig_fn w dc' blk' h' 1 = Inr (op_rollupConfig a)))"
  using rollup_call_args[of dc blk h n s w] rollup_result_handed_on[of a s w] by blast

theorem Run_rollup_config_uses_node_genesis_hash_witness:
  "Call_RollupConfig exampleDerived exampleBlock 0x1234 1 \<in> set (fst (Run exampleStack goodWorld)) \<and>
   GenesisHash_res goodWorld = Inr 0x1234 \<and>
   GenesisHash \<in> set (fst (Run exampleStack goodWorld)) \<and>
   NewOPStack exampleOPStackArgs \<in> set (fst (Run exampleStack goodWorld)) \<and>
   (\<exists>dc' blk' h'. GenesisHash_res goodWorld = Inr h'
      \<and> Call_RollupConfig dc' blk' h' 1 \<in> set (fst (Run exampleStack goodWorld))
      \<and> RollupConfig_fn goodWorld dc' blk' h' 1 = Inr (op_rollupConfig exampleOPStackArgs))"
proof -
  have r: "Call_RollupConfig exampleDerived exampleBlock 0x1234 1
             \<in> set (fst (Run exampleStack goodWorld))"
    by (simp add: Run_goodWorld in_goodTrace)
  have o: "NewOPStack exampleOPStackArgs \<in> set (fst (Run exampleStack goodWorld))"
    by (simp add: Run_goodWorld in_goodTrace)
  show ?thesis
    using r o
      Run_rollup_config_uses_node_genesis_hash[where dc = exampleDerived and blk = exampleBlock
        and h = "0x1234" and n = 1 and s = exampleStack and w = goodWorld
        and a = exampleOPStackArgs]
    by blast
qed

subsection \<open>C3: the L1 chain ID is forced\<close>

lemma rollup_call_L1ChainID:
  assumes "Call_RollupConfig dc blk h n \<in> set (fst (Run s w))"
  shows "L1ChainID dc = 31337"
  using reach_RollupConfig[OF assms] by (auto simp: SetDeployments_def)

lemma template_reaches_rollup_call:
  assumes "NewDeployConfigWithNetwork nm p \<in> set (fst (Run s w))"
    and "NewDeployConfig_res w = Inr tmpl"
  shows "\<exists>dc blk h. Call_RollupConfig dc blk h 1 \<in> set (fst (Run s w)) \<and> L1ChainID dc = 31337
           \<and> templateRest dc = templateRest tmpl"
proof -
  from reach_NewDeployConfig[OF assms(1)] obtain k blk h l1d eh ews cl a where
    "nodeBuilt w k blk eh ews cl a" "NodeRun_res w = None"
       "IsReachable_monomer w" "Dial_monomer w = None" "GenesisHash_res w = Inr h"
       "NewL1Deployments_res w = Inr l1d" by blast
  with assms(2) have
    "Call_RollupConfig (SetDeployments ((tmpl\<lparr>L1ChainID := 31337\<rparr>)\<lparr>L2ChainID := 901\<rparr>) l1d) blk h 1
       \<in> set (fst (Run s w))"
    by (auto simp: run_eval split: sum.splits)
  then show ?thesis by (force simp: SetDeployments_def)
qed

text \<open>
  Claim C3. After config derivation the field \<open>L1ChainID\<close> of the deploy config
  is 31337, whatever the loaded template held. The deploy config is observed
  where the pipeline hands it on, as the receiver of \<open>RollupConfig\<close>:
  \<^item> every deploy config the derivation is called on has \<open>L1ChainID = 31337\<close>;
  \<^item> whenever the template was loaded, whatever it is, the derivation is called
    on a config with \<open>L1ChainID = 31337\<close> that keeps the rest of that template.
\<close>

theorem Run_forces_L1_chain_id:
  "(Call_RollupConfig dc blk h n \<in> set (fst (Run s w)) \<longrightarrow> L1ChainID dc = 31337)
   \<and> (NewDeployConfigWithNetwork nm p \<in> set (fst (Run s w)) \<and> NewDeployConfig_res w = Inr tmpl \<longrightarrow>
        (\<exists>dc' blk' h'. Call_RollupConfig dc' blk' h' 1 \<in> set (fst (Run s w))
           \<and> L1ChainID dc' = 31337 \<and> templateRest dc' = templateRest tmpl))"
  using rollup_call_L1ChainID[of dc blk h n s w] template_reaches_rollup_call[of nm p s w tmpl]
  by blast

theorem Run_forces_L1_chain_id_witness:
  "Call_RollupConfig exampleDerived exampleBlock 0x1234 1 \<in> set (fst (Run exampleStack goodWorld)) \<and>
   L1ChainID exampleDerived = 31337 \<and>
   NewDeployConfigWithNetwork ''hardhat'' ''/contracts/deploy-config''
     \<in> set (fst (Run exampleStack goodWorld)) \<and>
   NewDeployConfig_res goodWorld = Inr exampleTemplate \<and>
   L1ChainID exampleTemplate = 900 \<and>
   (\<exists>dc' blk' h'. Call_RollupConfig dc' blk' h' 1 \<in> set (fst (Run exampleStack goodWorld))
      \<and> L1ChainID dc' = 31337 \<and> templateRest dc' = templateRest exampleTemplate)"
proof -
  have r: "Call_RollupConfig exampleDerived exampleBlock 0x1234 1
             \<in> set (fst (Run exampleStack goodWorld))"
    by (simp add: Run_goodWorld in_goodTrace)
  have l: "NewDeployConfigWithNetwork ''hardhat'' ''/contracts/deploy-config''
             \<in> set (fst (Run exampleStack goodWorld))"
    by (simp add: Run_goodWorld in_goodTrace)
  have t: "NewDeployConfig_res goodWorld = Inr exampleTemplate" "L1ChainID exampleTemplate = 900"
    by (simp_all add: goodWorld_fields exampleTemplate_def)
  show ?thesis
    using r l t
      Run_forces_L1_chain_id[where dc = exampleDerived and blk = exampleBlock and h = "0x1234"
        and n = 1 and s = exampleStack and w = goodWorld and nm = "''hardhat''"
        and p = "''/contracts/deploy-config''" and tmpl = exampleTemplate]
    by blast
qed

subsection \<open>C4: the order of the overrides\<close>

lemma deploy_config_steps:
  assumes "Call_RollupConfig dc blk h n \<in> set (fst (Run s w))"
  shows "\<exists>tmpl l1d. NewDeployConfig_res w = Inr tmpl \<and> NewL1Deployments_res w = Inr l1d
        \<and> dc = SetDeployments ((tmpl\<lparr>L1ChainID := 31337\<rparr>)\<lparr>L2ChainID := 901\<rparr>) l1d
        \<and> filter touchesDeployConfig (fst (Run s w)) =
            [Assign_L1ChainID 31337, Assign_L2ChainID 901, Call_SetDeployments l1d,
             Call_RollupConfig dc blk h n]"
proof -
  from reach_RollupConfig[OF assms] obtain k l1d tmpl
    where cl: "configsLoaded w k blk h l1d tmpl" and n: "n = 1"
      and dc: "dc = SetDeployments ((tmpl\<lparr>L1ChainID := 31337\<rparr>)\<lparr>L2ChainID := 901\<rparr>) l1d"
    by blast
  from cl have "filter touchesDeployConfig (fst (Run s w)) =
            [Assign_L1ChainID 31337, Assign_L2ChainID 901, Call_SetDeployments l1d,
             Call_RollupConfig
               (SetDeployments ((tmpl\<lparr>L1ChainID := 31337\<rparr>)\<lparr>L2ChainID := 901\<rparr>) l1d) blk h 1]"
    by (auto simp: run_eval touchesDeployConfig_def split: sum.splits option.splits)
  with cl n dc show ?thesis by (auto simp: configsLoaded_def)
qed

text \<open>
  Claim C4. Config derivation applies its overrides in this order: the L1
  chain ID is set to 31337, then the L2 chain ID to the orchestrator's value
  (901), then the loaded L1 deployments are injected, and only then is the
  rollup config derived from the resulting deploy config. In every run that
  reaches the derivation, the writes to and calls on the deploy config are
  exactly these four, in this order, each once; the config the derivation
  receives is the loaded template after the three overrides.
\<close>

theorem Run_override_order:
  "Call_RollupConfig dc blk h n \<in> set (fst (Run s w)) \<Longrightarrow>
     \<exists>tmpl l1d. NewDeployConfig_res w = Inr tmpl \<and> NewL1Deployments_res w = Inr l1d
        \<and> dc = SetDeployments ((tmpl\<lparr>L1ChainID := 31337\<rparr>)\<lparr>L2ChainID := 901\<rparr>) l1d
        \<and> filter touchesDeployConfig (fst (Run s w)) =
            [Assign_L1ChainID 31337, Assign_L2ChainID 901, Call_SetDeployments l1d,
             Call_RollupConfig dc blk h n]"
  by (rule deploy_config_steps)

theorem Run_override_order_witness:
  "Call_RollupConfig exampleDerived exampleBlock 0x1234 1 \<in> set (fst (Run exampleStack goodWorld)) \<and>
   (\<exists>tmpl l1d. NewDeployConfig_res goodWorld = Inr tmpl \<and> NewL1Deployments_res goodWorld = Inr l1d
        \<and> exampleDerived = SetDeployments ((tmpl\<lparr>L1ChainID := 31337\<rparr>)\<lparr>L2ChainID := 901\<rparr>) l1d
        \<and> filter touchesDeployConfig (fst (Run exampleStack goodWorld)) =
            [Assign_L1ChainID 31337, Assign_L2ChainID 901, Call_SetDeployments l1d,
             Call_RollupConfig exampleDerived exampleBlock 0x1234 1])"
proof -
  have r: "Call_RollupConfig exampleDerived exampleBlock 0x1234 1
             \<in> set (fst (Run exampleStack goodWorld))"
    by (simp add: Run_goodWorld in_goodTrace)
  show ?thesis
    using r Run_override_order[OF r] by blast
qed

subsection \<open>C5: the L2 genesis time\<close>

lemma genesis_time_steps:
  assumes "NodeNew a \<in> set (fst (Run s w))"
  shows "\<exists>blk c. BlockByNumber_res w = Inr blk \<and> Time (node_genesis a) = block_Time blk
      \<and> Wait_forge w = None \<and> cmd_name c = ''forge''
      \<and> filter isGenesisTimeStep (fst (Run s w)) = [CmdWait c, BlockByNumber_latest, NodeNew a]
      \<and> (\<forall>t. t \<le> block_Time blk \<longrightarrow> t \<le> Time (node_genesis a))"
proof -
  from reach_NodeNew[OF assms] obtain k blk eh ews cl app where
    nb: "nodeBuilt w k blk eh ews cl app"
    and a: "a = \<lparr> node_app = app,
                node_genesis = \<lparr> AppState = DefaultGenesis w app, ChainID = 901, Time = block_Time blk \<rparr>,
                node_engineHTTP = eh,
                node_engineWS = ews,
                node_cometListener = cl,
                node_blockdb = BlockDB,
                node_mempooldb = MempoolDB,
                node_txdb = TxDB,
                node_eventListener = eventListener s \<rparr>"
    by blast
  from nb have "filter isGenesisTimeStep (fst (Run s w)) =
      [CmdWait (forgeCommand s w k), BlockByNumber_latest, NodeNew a]"
    unfolding a
    by (auto simp: run_eval isGenesisTimeStep_def split: sum.splits option.splits)
  moreover have "cmd_name (forgeCommand s w k) = ''forge''" by (simp add: forgeCommand_def)
  moreover from nb have "BlockByNumber_res w = Inr blk" "Wait_forge w = None"
    by (simp_all add: stage_defs)
  moreover have "Time (node_genesis a) = block_Time blk" by (simp add: a)
  ultimately show ?thesis by auto
qed

text \<open>
  Claim C5. The genesis time handed to the L2 node is the timestamp of the
  latest L1 block, fetched after the deployment script had finished. Whenever
  \<^verbatim>\<open>node.New\<close> is called, the field \<open>Time\<close> of its genesis is \<open>Time()\<close> of the
  block that \<open>BlockByNumber(ctx, nil)\<close> answered; the wait for the deployment
  script (which returned nil), the fetch of the block and the construction of
  the node happen once each, in this order. Hence no L1 timestamp up to the
  snapshot's (the L1 genesis time among them, L1 timestamps being
  non-decreasing along the chain) is later than the L2 genesis time.
\<close>

theorem Run_genesis_time_from_L1_snapshot:
  "NodeNew a \<in> set (fst (Run s w)) \<Longrightarrow>
     \<exists>blk c. BlockByNumber_res w = Inr blk \<and> Time (node_genesis a) = block_Time blk
      \<and> Wait_forge w = None \<and> cmd_name c = ''forge''
      \<and> filter isGenesisTimeStep (fst (Run s w)) = [CmdWait c, BlockByNumber_latest, NodeNew a]
      \<and> (\<forall>t. t \<le> block_Time blk \<longrightarrow> t \<le> Time (node_genesis a))"
  by (rule genesis_time_steps)

theorem Run_genesis_time_from_L1_snapshot_witness:
  "NodeNew exampleNodeArgs \<in> set (fst (Run exampleStack goodWorld)) \<and>
   (\<exists>blk c. BlockByNumber_res goodWorld = Inr blk
      \<and> Time (node_genesis exampleNodeArgs) = block_Time blk
      \<and> Wait_forge goodWorld = None \<and> cmd_name c = ''forge''
      \<and> filter isGenesisTimeStep (fst (Run exampleStack goodWorld)) =
           [CmdWait c, BlockByNumber_latest, NodeNew exampleNodeArgs]
      \<and> (\<forall>t. t \<le> block_Time blk \<longrightarrow> t \<le> Time (node_genesis exampleNodeArgs)))"
proof -
  have r: "NodeNew exampleNodeArgs \<in> set (fst (Run exampleStack goodWorld))"
    by (simp add: Run_goodWorld in_goodTrace)
  show ?thesis
    using r Run_genesis_time_from_L1_snapshot[OF r] by blast
qed

subsection \<open>C6: the simulator is watched in the background\<close>

lemma monitor_launched:
  assumes "cmd_name c = ''anvil''" "CmdStart c \<in> set (fst (Run s w))" "Start_anvil w = None"
  shows "EnvGo_WaitAnvil c \<in> set (fst (Run s w))"
  using reach_anvil_start[OF assms(1,2)] assms(3) by (simp add: Run_def run_sel)

lemma no_wait_on_anvil:
  assumes "CmdWait c \<in> set (fst (Run s w))"
  shows "cmd_name c \<noteq> ''anvil''"
  using reach_forge_wait[OF assms] by (auto simp: forgeCommand_def)

lemma anvilMonitor_callbacks:
  "(Wait_anvil w = None \<longrightarrow> anvilMonitor w c = []) \<and>
   (\<forall>e. Wait_anvil w = Some e \<longrightarrow>
      anvilMonitor w c = [OnAnvilErr (Some (''run '' @ cmd_String w c @ '': '' @ e))]) \<and>
   OnAnvilErr None \<notin> set (anvilMonitor w c)"
  by (auto simp: anvilMonitor_def split: option.splits)

text \<open>
  Claim C6. The L1 simulator is monitored asynchronously: a background task
  waits for its exit and, when the wait returns an error, calls \<open>OnAnvilErr\<close>
  with a non-nil error; the monitoring never changes what \<open>Run\<close> returns and
  never aborts the pipeline.
  \<^item> Once the simulator was spawned, \<open>Run\<close> hands the wait to \<open>env.Go\<close>; \<open>Run\<close>
    itself never waits for the simulator (every \<open>Wait\<close> in its trace is on
    another command).
  \<^item> The task delivers no callback when \<open>Wait\<close> returns nil, and exactly one
    \<open>OnAnvilErr\<close>, carrying the wrapped error, when it returns an error; the
    callback is never given nil.
  \<^item> The calls \<open>Run\<close> makes and the value it returns are the same whatever the
    wait answers.
  The interleaving of the task with the pipeline is not part of the model: the
  task's only input is the answer of \<open>Wait\<close>, its only output the callback.
\<close>

theorem anvil_monitored_in_background:
  "(cmd_name c = ''anvil'' \<and> CmdStart c \<in> set (fst (Run s w)) \<and> Start_anvil w = None \<longrightarrow>
      EnvGo_WaitAnvil c \<in> set (fst (Run s w)))
   \<and> (\<forall>c'. CmdWait c' \<in> set (fst (Run s w)) \<longrightarrow> cmd_name c' \<noteq> ''anvil'')
   \<and> (Wait_anvil w = None \<longrightarrow> anvilMonitor w c = [])
   \<and> (\<forall>e. Wait_anvil w = Some e \<longrightarrow>
        anvilMonitor w c = [OnAnvilErr (Some (''run '' @ cmd_String w c @ '': '' @ e))])
   \<and> OnAnvilErr None \<notin> set (anvilMonitor w c)
   \<and> (\<forall>x. Run s (w\<lparr>Wait_anvil := x\<rparr>) = Run s w)"
  using monitor_launched[of c s w] no_wait_on_anvil[of _ s w] anvilMonitor_callbacks[of w c]
    Run_ignores_Wait_anvil[of s _ w]
  by blast

theorem anvil_monitored_in_background_witness:
  "cmd_name (anvilCommand exampleStack goodWorld) = ''anvil'' \<and>
   CmdStart (anvilCommand exampleStack goodWorld) \<in> set (fst (Run exampleStack anvilDiesWorld)) \<and>
   Start_anvil anvilDiesWorld = None \<and>
   EnvGo_WaitAnvil (anvilCommand exampleStack goodWorld) \<in> set (fst (Run exampleStack anvilDiesWorld)) \<and>
   CmdWait (forgeCommand exampleStack goodWorld 42) \<in> set (fst (Run exampleStack anvilDiesWorld)) \<and>
   cmd_name (forgeCommand exampleStack goodWorld 42) \<noteq> ''anvil'' \<and>
   Wait_anvil anvilDiesWorld = Some ''signal: killed'' \<and>
   anvilMonitor anvilDiesWorld (anvilCommand exampleStack goodWorld) =
     [OnAnvilErr (Some (''run '' @ cmd_String anvilDiesWorld (anvilCommand exampleStack goodWorld)
                          @ '': '' @ ''signal: killed''))] \<and>
   Run exampleStack (anvilDiesWorld\<lparr>Wait_anvil := None\<rparr>) = Run exampleStack anvilDiesWorld"
proof -
  have n: "cmd_name (anvilCommand exampleStack goodWorld) = ''anvil''"
    by (simp add: anvilCommand_def)
  have st: "CmdStart (anvilCommand exampleStack goodWorld)
              \<in> set (fst (Run exampleStack anvilDiesWorld))"
    by (simp add: Run_anvilDies in_goodTrace)
  have wt: "CmdWait (forgeCommand exampleStack goodWorld 42)
              \<in> set (fst (Run exampleStack anvilDiesWorld))"
    by (simp add: Run_anvilDies in_goodTrace)
  have f: "Start_anvil anvilDiesWorld = None" "Wait_anvil anvilDiesWorld = Some ''signal: killed''"
    by (simp_all add: anvilDiesWorld_def goodWorld_fields)
  show ?thesis
    using n st wt f
      anvil_monitored_in_background[where c = "anvilCommand exampleStack goodWorld"
        and s = exampleStack and w = anvilDiesWorld]
    by blast
qed

subsection \<open>C7: the deployment script runs synchronously\<close>

lemma forge_wait_before_fetch:
  assumes "BlockByNumber_latest \<in> set (fst (Run s w))"
  shows "\<exists>c. cmd_name c = ''forge'' \<and> Start_forge w = None \<and> Wait_forge w = None \<and>
           filter isWaitOrBlockFetch (fst (Run s w)) = [CmdWait c, BlockByNumber_latest]"
proof -
  from reach_BlockByNumber[OF assms] obtain k where cd: "contractsDeployed w k" by blast
  then have "filter isWaitOrBlockFetch (fst (Run s w)) =
               [CmdWait (forgeCommand s w k), BlockByNumber_latest]"
    by (auto simp: run_eval isWaitOrBlockFetch_def split: run_splits)
  moreover have "cmd_name (forgeCommand s w k) = ''forge''" by (simp add: forgeCommand_def)
  ultimately show ?thesis using cd by (auto simp: stage_defs)
qed

lemma forge_start_failure:
  assumes "cmd_name c = ''forge''" "CmdStart c \<in> set (fst (Run s w))" "Start_forge w = Some e"
  shows "snd (Run s w) = Some (''start '' @ cmd_String w c @ '': '' @ e) \<and>
         last (fst (Run s w)) = CmdStart c"
  using reach_forge_start[OF assms(1,2)] assms(3) by (auto simp: run_eval)

lemma forge_wait_failure:
  assumes "CmdWait c \<in> set (fst (Run s w))" "Wait_forge w = Some e"
  shows "cmd_name c = ''forge'' \<and>
         snd (Run s w) = Some (''run '' @ cmd_String w c @ '': '' @ e) \<and>
         last (fst (Run s w)) = CmdWait c"
  using reach_forge_wait[OF assms(1)] assms(2) by (auto simp: run_eval forgeCommand_def)

text \<open>
  Claim C7. The deployment script is run synchronously, and a failure to spawn
  it or an exit with an error aborts the pipeline with a wrapped error that
  names the stage.
  \<^item> Whenever the latest L1 block is read, \<open>Run\<close> has before that waited for the
    script, once, and the start and the wait both returned nil.
  \<^item> When the start of the script fails with \<open>e\<close>, \<open>Run\<close> returns the error
    \<open>"start <cmd>: <e>"\<close> and the start is its last call.
  \<^item> When the wait fails with \<open>e\<close> (a nonzero exit among the causes), \<open>Run\<close>
    returns the error \<open>"run <cmd>: <e>"\<close> and the wait is its last call.
\<close>

theorem Run_deploys_synchronously:
  "(BlockByNumber_latest \<in> set (fst (Run s w)) \<longrightarrow>
      (\<exists>c'. cmd_name c' = ''forge'' \<and> Start_forge w = None \<and> Wait_forge w = None \<and>
           filter isWaitOrBlockFetch (fst (Run s w)) = [CmdWait c', BlockByNumber_latest]))
   \<and> (cmd_name c = ''forge'' \<and> CmdStart c \<in> set (fst (Run s w)) \<and> Start_forge w = Some e \<longrightarrow>
        snd (Run s w) = Some (''start '' @ cmd_String w c @ '': '' @ e) \<and>
        last (fst (Run s w)) = CmdStart c)
   \<and> (CmdWait c \<in> set (fst (Run s w)) \<and> Wait_forge w = Some e \<longrightarrow>
        cmd_name c = ''forge'' \<and>
        snd (Run s w) = Some (''run '' @ cmd_String w c @ '': '' @ e) \<and>
        last (fst (Run s w)) = CmdWait c)"
  using forge_wait_before_fetch[of s w] forge_start_failure[of c s w e] forge_wait_failure[of c s w e]
  by blast

theorem Run_deploys_synchronously_witness:
  "BlockByNumber_latest \<in> set (fst (Run exampleStack goodWorld)) \<and>
   (\<exists>c'. cmd_name c' = ''forge'' \<and> Start_forge goodWorld = None \<and> Wait_forge goodWorld = None \<and>
       filter isWaitOrBlockFetch (fst (Run exampleStack goodWorld)) = [CmdWait c', BlockByNumber_latest]) \<and>
   cmd_name (forgeCommand exampleStack goodWorld 42) = ''forge'' \<and>
   CmdStart (forgeCommand exampleStack goodWorld 42) \<in> set (fst (Run exampleStack forgeMissingWorld)) \<and>
   Start_forge forgeMissingWorld = Some ''executable file not found'' \<and>
   snd (Run exampleStack forgeMissingWorld) =
     Some (''start '' @ cmd_String forgeMissingWorld (forgeCommand exampleStack goodWorld 42)
             @ '': '' @ ''executable file not found'') \<and>
   last (fst (Run exampleStack forgeMissingWorld)) = CmdStart (forgeCommand exampleStack goodWorld 42) \<and>
   CmdWait (forgeCommand exampleStack goodWorld 42) \<in> set (fst (Run exampleStack forgeFailsWorld)) \<and>
   Wait_forge forgeFailsWorld = Some ''exit status 1'' \<and>
   snd (Run exampleStack forgeFailsWorld) =
     Some (''run '' @ cmd_String forgeFailsWorld (forgeCommand exampleStack goodWorld 42)
             @ '': '' @ ''exit status 1'') \<and>
   last (fst (Run exampleStack forgeFailsWorld)) = CmdWait (forgeCommand exampleStack goodWorld 42)"
proof -
  have b: "BlockByNumber_latest \<in> set (fst (Run exampleStack goodWorld))"
    by (simp add: Run_goodWorld in_goodTrace)
  have n: "cmd_name (forgeCommand exampleStack goodWorld 42) = ''forge''"
    by (simp add: forgeCommand_def)
  have st: "CmdStart (forgeCommand exampleStack goodWorld 42)
              \<in> set (fst (Run exampleStack forgeMissingWorld))"
    by (simp add: Run_forgeMissing goodTrace_def)
  have wt: "CmdWait (forgeCommand exampleStack goodWorld 42)
              \<in> set (fst (Run exampleStack forgeFailsWorld))"
    by (simp add: Run_forgeFails goodTrace_def)
  have f: "Start_forge forgeMissingWorld = Some ''executable file not found''"
    "Wait_forge forgeFailsWorld = Some ''exit status 1''"
    by (simp_all add: forgeMissingWorld_def forgeFailsWorld_def)
  show ?thesis
    using b n st wt f
      Run_deploys_synchronously[where s = exampleStack and w = goodWorld]
      Run_deploys_synchronously[where c = "forgeCommand exampleStack goodWorld 42"
        and s = exampleStack and w = forgeMissingWorld and e = "''executable file not found''"]
      Run_deploys_synchronously[where c = "forgeCommand exampleStack goodWorld 42"
        and s = exampleStack and w = forgeFailsWorld and e = "''exit status 1''"]
    by blast
qed

subsection \<open>C8: one key per run\<close>

lemma funded_address_from_key:
  assumes "SetBalance a v \<in> set (fst (Run s w))"
  shows "\<exists>k. GenerateKey_res w = Inr k \<and> a = PubkeyToAddress w k \<and> v = 10 * oneETH"
  using reach_SetBalance[OF assms] by blast

lemma deployer_key:
  assumes "cmd_name c = ''forge''" "CmdStart c \<in> set (fst (Run s w))"
  shows "\<exists>k. GenerateKey_res w = Inr k \<and> c = forgeCommand s w k \<and>
           drop 8 (cmd_args c) = [''--private-key'', Bytes2Hex_FromECDSA w k] \<and>
           SetBalance (PubkeyToAddress w k) (10 * oneETH) \<in> set (fst (Run s w))"
proof -
  from reach_forge_start[OF assms] obtain k where
    af: "accountFunded w k" and c: "c = forgeCommand s w k" by blast
  from af have "SetBalance (PubkeyToAddress w k) (10 * oneETH) \<in> set (fst (Run s w))"
    by (simp add: run_eval)
  moreover have
    "drop 8 (cmd_args (forgeCommand s w k)) = [''--private-key'', Bytes2Hex_FromECDSA w k]"
    by (simp add: forgeCommand_def)
  ultimately show ?thesis using af c by (auto simp: stage_defs)
qed

lemma opstack_key:
  assumes "NewOPStack a \<in> set (fst (Run s w))"
  shows "GenerateKey_res w = Inr (op_privKey a) \<and>
         count_list (fst (Run s w)) GenerateKey = 1 \<and>
         SetBalance (PubkeyToAddress w (op_privKey a)) (10 * oneETH) \<in> set (fst (Run s w)) \<and>
         CmdStart (forgeCommand s w (op_privKey a)) \<in> set (fst (Run s w))"
proof -
  from reach_NewOPStack[OF assms] obtain blk h l1d tmpl where
    "configsLoaded w (op_privKey a) blk h l1d tmpl" by blast
  then show ?thesis
    by (auto simp: run_eval split: run_splits)
qed

text \<open>
  Claim C8. One key pair is generated per run, and this key is the account
  funded by the set-balance call, the private key passed to the deployment
  script, and the key handed to the OP stack; no other key is generated or
  used.
  \<^item> \<open>crypto.GenerateKey\<close> is called at most once in any run.
  \<^item> The address of every set-balance call is the address of the generated
    key's public key (and the amount is ten ETH).
  \<^item> Every deployment command started is the one built from the generated key:
    its last two arguments are \<open>--private-key\<close> and the hex encoding of that
    key, and the same key's address was funded before.
  \<^item> The key given to \<open>NewOPStack\<close> is the generated key; in such a run the key
    was generated exactly once, funded, and used for the deployment.
\<close>

theorem Run_uses_one_key:
  "count_list (fst (Run s w)) GenerateKey \<le> 1
   \<and> (SetBalance ad v \<in> set (fst (Run s w)) \<longrightarrow>
        (\<exists>k. GenerateKey_res w = Inr k \<and> ad = PubkeyToAddress w k \<and> v = 10 * oneETH))
   \<and> (cmd_name c = ''forge'' \<and> CmdStart c \<in> set (fst (Run s w)) \<longrightarrow>
        (\<exists>k. GenerateKey_res w = Inr k \<and> c = forgeCommand s w k \<and>
           drop 8 (cmd_args c) = [''--private-key'', Bytes2Hex_FromECDSA w k] \<and>
           SetBalance (PubkeyToAddress w k) (10 * oneETH) \<in> set (fst (Run s w))))
   \<and> (NewOPStack a \<in> set (fst (Run s w)) \<longrightarrow>
        GenerateKey_res w = Inr (op_privKey a) \<and>
        count_list (fst (Run s w)) GenerateKey = 1 \<and>
        SetBalance (PubkeyToAddress w (op_privKey a)) (10 * oneETH) \<in> set (fst (Run s w)) \<and>
        CmdStart (forgeCommand s w (op_privKey a)) \<in> set (fst (Run s w)))"
  using GenerateKey_once[of s w] funded_address_from_key[of ad v s w] deployer_key[of c s w]
    opstack_key[of a s w]
  by blast

theorem Run_uses_one_key_witness:
  "SetBalance 42 (10 * oneETH) \<in> set (fst (Run exampleStack goodWorld)) \<and>
   (\<exists>k. GenerateKey_res goodWorld = Inr k \<and> 42 = PubkeyToAddress goodWorld k) \<and>
   cmd_name (forgeCommand exampleStack goodWorld 42) = ''forge'' \<and>
   CmdStart (forgeCommand exampleStack goodWorld 42) \<in> set (fst (Run exampleStack goodWorld)) \<and>
   (\<exists>k. GenerateKey_res goodWorld = Inr k \<and>
        forgeCommand exampleStack goodWorld 42 = forgeCommand exampleStack goodWorld k \<and>
        drop 8 (cmd_args (forgeCommand exampleStack goodWorld 42)) =
          [''--private-key'', Bytes2Hex_FromECDSA goodWorld k]) \<and>
   NewOPStack exampleOPStackArgs \<in> set (fst (Run exampleStack goodWorld)) \<and>
   GenerateKey_res goodWorld = Inr (op_privKey exampleOPStackArgs) \<and>
   count_list (fst (Run exampleStack goodWorld)) GenerateKey = 1"
proof -
  have b: "SetBalance 42 (10 * oneETH) \<in> set (fst (Run exampleStack goodWorld))"
    by (simp add: Run_goodWorld in_goodTrace)
  have n: "cmd_name (forgeCommand exampleStack goodWorld 42) = ''forge''"
    by (simp add: forgeCommand_def)
  have st: "CmdStart (forgeCommand exampleStack goodWorld 42)
              \<in> set (fst (Run exampleStack goodWorld))"
    by (simp add: Run_goodWorld in_goodTrace)
  have o: "NewOPStack exampleOPStackArgs \<in> set (fst (Run exampleStack goodWorld))"
    by (simp add: Run_goodWorld in_goodTrace)
  show ?thesis
    using b n st o
      Run_uses_one_key[where ad = 42 and v = "10 * oneETH"
        and c = "forgeCommand exampleStack goodWorld 42" and a = exampleOPStackArgs
        and s = exampleStack and w = goodWorld]
    by blast
qed

subsection \<open>C9: one L2 chain ID\<close>

lemma node_chain_id:
  assumes "NodeNew a \<in> set (fst (Run s w))"
  shows "ChainID (node_genesis a) = 901"
  using reach_NodeNew[OF assms] by auto

lemma config_chain_id:
  assumes "Call_RollupConfig dc blk h n \<in> set (fst (Run s w))"
  shows "L2ChainID dc = 901 \<and>
         (\<exists>a. NodeNew a \<in> set (fst (Run s w)) \<and> ChainID (node_genesis a) = L2ChainID dc)"
proof -
  from reach_RollupConfig[OF assms] obtain k l1d tmpl where
    cl: "configsLoaded w k blk h l1d tmpl"
    and dc: "dc = SetDeployments ((tmpl\<lparr>L1ChainID := 31337\<rparr>)\<lparr>L2ChainID := 901\<rparr>) l1d" by blast
  from dc have l2: "L2ChainID dc = 901" by (simp add: SetDeployments_def)
  from cl obtain eh ews cl' ap where nb: "nodeBuilt w k blk eh ews cl' ap"
    by (auto simp: configsLoaded_def)
  then have "NodeNew \<lparr> node_app = ap,
                node_genesis = \<lparr> AppState = DefaultGenesis w ap, ChainID = 901, Time = block_Time blk \<rparr>,
                node_engineHTTP = eh,
                node_engineWS = ews,
                node_cometListener = cl',
                node_blockdb = BlockDB,
                node_mempooldb = MempoolDB,
                node_txdb = TxDB,
                node_eventListener = eventListener s \<rparr> \<in> set (fst (Run s w))"
    by (simp add: run_eval)
  with l2 show ?thesis by force
qed

text \<open>
  Claim C9. The chain ID in the genesis given to the L2 node equals the L2
  chain ID written into the deploy config; both are the constant 901 of
  \<open>Run\<close>, so the running node and the derived rollup config cannot disagree.
  \<^item> Every genesis handed to \<^verbatim>\<open>node.New\<close> has chain ID 901
    (\<open>monomer.ChainID(chainIDU64)\<close> is a conversion of the uint64).
  \<^item> Every deploy config the derivation is called on has \<open>L2ChainID = 901\<close>, and
    a node with the same chain ID was built earlier in that run.
  \<^item> Any node built and any config derived from in one run agree.
\<close>

theorem Run_L2_chain_id_consistent:
  "(NodeNew a \<in> set (fst (Run s w)) \<longrightarrow> ChainID (node_genesis a) = 901)
   \<and> (Call_RollupConfig dc blk h n \<in> set (fst (Run s w)) \<longrightarrow>
        L2ChainID dc = 901 \<and>
        (\<exists>a'. NodeNew a' \<in> set (fst (Run s w)) \<and> ChainID (node_genesis a') = L2ChainID dc))
   \<and> (NodeNew a \<in> set (fst (Run s w)) \<and> Call_RollupConfig dc blk h n \<in> set (fst (Run s w)) \<longrightarrow>
        ChainID (node_genesis a) = L2ChainID dc)"
proof -
  have n: "NodeNew a \<in> set (fst (Run s w)) \<longrightarrow> ChainID (node_genesis a) = 901"
    by (rule impI) (rule node_chain_id)
  have d: "Call_RollupConfig dc blk h n \<in> set (fst (Run s w)) \<longrightarrow>
        L2ChainID dc = 901 \<and>
        (\<exists>a'. NodeNew a' \<in> set (fst (Run s w)) \<and> ChainID (node_genesis a') = L2ChainID dc)"
    by (rule impI) (rule config_chain_id)
  have e: "NodeNew a \<in> set (fst (Run s w)) \<and> Call_RollupConfig dc blk h n \<in> set (fst (Run s w)) \<longrightarrow>
        ChainID (node_genesis a) = L2ChainID dc"
  proof (rule impI, elim conjE)
    assume 1: "NodeNew a \<in> set (fst (Run s w))"
      and 2: "Call_RollupConfig dc blk h n \<in> set (fst (Run s w))"
    from node_chain_id[OF 1] config_chain_id[OF 2]
    show "ChainID (node_genesis a) = L2ChainID dc" by simp
  qed
  show ?thesis by (rule conjI, rule n, rule conjI, rule d, rule e)
qed

theorem Run_L2_chain_id_consistent_witness:
  "NodeNew exampleNodeArgs \<in> set (fst (Run exampleStack goodWorld)) \<and>
   Call_RollupConfig exampleDerived exampleBlock 0x1234 1 \<in> set (fst (Run exampleStack goodWorld)) \<and>
   ChainID (node_genesis exampleNodeArgs) = 901 \<and>
   L2ChainID exampleDerived = 901 \<and>
   ChainID (node_genesis exampleNodeArgs) = L2ChainID exampleDerived"
proof -
  have nd: "NodeNew exampleNodeArgs \<in> set (fst (Run exampleStack goodWorld))"
    by (simp add: Run_goodWorld in_goodTrace)
  have r: "Call_RollupConfig exampleDerived exampleBlock 0x1234 1
             \<in> set (fst (Run exampleStack goodWorld))"
    by (simp add: Run_goodWorld in_goodTrace)
  show ?thesis
    using nd r
      Run_L2_chain_id_consistent[where a = exampleNodeArgs and dc = exampleDerived
        and blk = exampleBlock and h = "0x1234" and n = 1 and s = exampleStack and w = goodWorld]
    by blast
qed

subsection \<open>C10: where the L2 node listens and what is probed\<close>

lemma listeners_of_node:
  assumes "NodeNew a \<in> set (fst (Run s w))"
  shows "filter isNetListen (fst (Run s w)) =
           [NetListen ''tcp'' ''127.0.0.1:0'' (Inr (node_engineHTTP a)),
            NetListen ''tcp'' (url_Host (monomerEngineURL s)) (Inr (node_engineWS a)),
            NetListen ''tcp'' (url_Host (monomerCometURL s)) (Inr (node_cometListener a))]"
proof -
  from reach_NodeNew[OF assms] obtain k blk eh ews cl app where
    nb: "nodeBuilt w k blk eh ews cl app"
    and a: "node_engineHTTP a = eh" "node_engineWS a = ews" "node_cometListener a = cl"
    by auto
  from nb show ?thesis unfolding a
    by (auto simp: run_eval isNetListen_def split: run_splits)
qed

lemma probe_after_NodeRun:
  assumes "NodeRun \<in> set (fst (Run s w))" "NodeRun_res w = None"
  shows "IsReachable (monomerEngineURL s) (IsReachable_monomer w) \<in> set (fst (Run s w))"
proof -
  from reach_NodeRun[OF assms(1)] obtain k blk eh ews cl a where "nodeBuilt w k blk eh ews cl a"
    by blast
  with assms(2) show ?thesis by (simp add: run_eval)
qed

text \<open>
  Claim C10. The engine HTTP listener of the L2 node is bound to 127.0.0.1
  with port 0 (a port chosen by the operating system), not to an endpoint of
  the \<open>Stack\<close>; only the engine WebSocket listener and the comet listener bind
  hosts configured in the \<open>Stack\<close>; the probe after the start targets the
  configured engine URL, not the HTTP listener.
  \<^item> Whenever the node is built, exactly three listeners were opened, in this
    order: \<open>tcp 127.0.0.1:0\<close>, \<open>tcp Host(monomerEngineURL)\<close>,
    \<open>tcp Host(monomerCometURL)\<close>, and the handles they returned are the node's
    engine HTTP, engine WebSocket and comet listener in this order.
  \<^item> No run listens anywhere else.
  \<^item> After the node was started, \<open>monomerEngineURL\<close> is probed; the only URLs
    ever probed are \<open>anvilURL\<close> and \<open>monomerEngineURL\<close>.
\<close>

theorem runMonomer_listener_endpoints:
  "(NodeNew a \<in> set (fst (Run s w)) \<longrightarrow>
      filter isNetListen (fst (Run s w)) =
           [NetListen ''tcp'' ''127.0.0.1:0'' (Inr (node_engineHTTP a)),
            NetListen ''tcp'' (url_Host (monomerEngineURL s)) (Inr (node_engineWS a)),
            NetListen ''tcp'' (url_Host (monomerCometURL s)) (Inr (node_cometListener a))])
   \<and> (NetListen net addr r \<in> set (fst (Run s w)) \<longrightarrow>
        net = ''tcp'' \<and>
        (addr = ''127.0.0.1:0'' \<and> r = Listen_engineHTTP w \<or>
         addr = url_Host (monomerEngineURL s) \<and> r = Listen_engineWS w \<or>
         addr = url_Host (monomerCometURL s) \<and> r = Listen_comet w))
   \<and> (NodeRun \<in> set (fst (Run s w)) \<and> NodeRun_res w = None \<longrightarrow>
        IsReachable (monomerEngineURL s) (IsReachable_monomer w) \<in> set (fst (Run s w)))
   \<and> (IsReachable u b \<in> set (fst (Run s w)) \<longrightarrow>
        u = anvilURL s \<and> b = IsReachable_anvil w \<or>
        u = monomerEngineURL s \<and> b = IsReachable_monomer w)"
  using listeners_of_node[of a s w] NetListen_addresses[of net addr r s w]
    probe_after_NodeRun[of s w] probe_targets[of u b s w]
  by blast

theorem runMonomer_listener_endpoints_witness:
  "NodeNew exampleNodeArgs \<in> set (fst (Run exampleStack goodWorld)) \<and>
   filter isNetListen (fst (Run exampleStack goodWorld)) =
     [NetListen ''tcp'' ''127.0.0.1:0'' (Inr (node_engineHTTP exampleNodeArgs)),
      NetListen ''tcp'' (url_Host (monomerEngineURL exampleStack)) (Inr (node_engineWS exampleNodeArgs)),
      NetListen ''tcp'' (url_Host (monomerCometURL exampleStack))
        (Inr (node_cometListener exampleNodeArgs))] \<and>
   NetListen ''tcp'' ''127.0.0.1:0'' (Inr 1) \<in> set (fst (Run exampleStack goodWorld)) \<and>
   NodeRun \<in> set (fst (Run exampleStack goodWorld)) \<and>
   NodeRun_res goodWorld = None \<and>
   IsReachable (monomerEngineURL exampleStack) (IsReachable_monomer goodWorld)
     \<in> set (fst (Run exampleStack goodWorld)) \<and>
   IsReachable (monomerEngineURL exampleStack) True \<in> set (fst (Run exampleStack goodWorld)) \<and>
   (monomerEngineURL exampleStack = anvilURL exampleStack \<and> True = IsReachable_anvil goodWorld \<or>
    monomerEngineURL exampleStack = monomerEngineURL exampleStack \<and>
      True = IsReachable_monomer goodWorld)"
proof -
  have nd: "NodeNew exampleNodeArgs \<in> set (fst (Run exampleStack goodWorld))"
    by (simp add: Run_goodWorld in_goodTrace)
  have l: "NetListen ''tcp'' ''127.0.0.1:0'' (Inr 1) \<in> set (fst (Run exampleStack goodWorld))"
    by (simp add: Run_goodWorld goodTrace_def)
  have nr: "NodeRun \<in> set (fst (Run exampleStack goodWorld))" "NodeRun_res goodWorld = None"
    by (simp_all add: Run_goodWorld in_goodTrace goodWorld_fields)
  have pr: "IsReachable (monomerEngineURL exampleStack) True
              \<in> set (fst (Run exampleStack goodWorld))"
    by (simp add: Run_goodWorld in_goodTrace)
  show ?thesis
    using nd l nr pr
      runMonomer_listener_endpoints[where a = exampleNodeArgs and s = exampleStack
        and w = goodWorld and net = "''tcp''" and addr = "''127.0.0.1:0''" and r = "Inr 1"
        and u = "monomerEngineURL exampleStack" and b = True]
    by blast
qed

end
